theory Spec2Isabelle
  imports Complex_Main
begin

section \<open>The MP3 player's playback state (mp3\_player.py, class MP3Player)\<close>

text \<open>
  The object's playback fields become a record. Times are seconds; Python's floats are
  taken as exact real numbers, so rounding is not part of the model. The tkinter widgets
  (buttons, status label, progress bar, the re-arming of the 500 ms timer) are left out,
  except where a widget call can raise. What the object sends to its collaborators is kept
  as two traces: \<open>mixer\<close>, the calls made to \<open>pygame.mixer.music\<close> in order (a call is
  recorded whether it succeeds or raises), and \<open>notices\<close>, the message boxes shown and
  the one error that is only logged.
\<close>

datatype command = Load string | Play real | Pause | Unpause | Stop

datatype notice =
    WarnUnsupportedFile
  | WarnNoMP3Files
  | WarnNoFileSelected
  | ErrFailedToLoad
  | ErrFailedToPlay
  | LogErrorNextSong

datatype py_error = TypeError | ZeroDivisionError | IndexError | OSError | MixerError

record player =
  current_file :: "string option"
  playing :: bool
  paused :: bool
  track_length :: real
  offset :: real
  play_start_time :: "real option"
  playlist :: "string list"
  current_index :: int
  mixer :: "command list"
  notices :: "notice list"

text \<open>
  Everything a handler reads from outside the object while it runs. One handler runs at one
  instant: every \<open>time.time()\<close> call in it returns \<open>now\<close>. \<open>busy\<close> is the answer of
  \<open>pygame.mixer.music.get_busy()\<close>, given the calls that have reached the mixer so far: a
  handler that asks again after it has started a track can get another answer than it got
  before. \<open>None\<close> in a length or in \<open>listdir\<close> stands for the call raising.
\<close>

record env =
  now :: real
  busy :: "command list \<Rightarrow> bool"
  load_fails :: "string \<Rightarrow> bool"
  play_fails :: bool
  use_mutagen :: bool
  mutagen_length :: "string \<Rightarrow> real option"
  sound_length :: "string \<Rightarrow> real option"
  listdir :: "string \<Rightarrow> string list option"
  shuffle :: "string list \<Rightarrow> string list"

text \<open>The fields as \<open>__init__\<close> sets them.\<close>

definition initial :: player where
  "initial = \<lparr>current_file = None, playing = False, paused = False, track_length = 0,
     offset = 0, play_start_time = None, playlist = [], current_index = - 1,
     mixer = [], notices = []\<rparr>"

subsection \<open>Strings and paths\<close>

text \<open>\<open>str.lower\<close> on ASCII: the capital letters map to the small ones, every other
  character stays.\<close>

definition lower_chr :: "char \<Rightarrow> char" where
  "lower_chr c =
     (case map_of (zip ''ABCDEFGHIJKLMNOPQRSTUVWXYZ'' ''abcdefghijklmnopqrstuvwxyz'') c of
        None \<Rightarrow> c
      | Some d \<Rightarrow> d)"

definition lower :: "string \<Rightarrow> string" where
  "lower s = map lower_chr s"

definition endswith :: "string \<Rightarrow> string \<Rightarrow> bool" where
  "endswith s suf = (length suf \<le> length s \<and> drop (length s - length suf) s = suf)"

definition is_mp3 :: "string \<Rightarrow> bool" where
  "is_mp3 s = endswith (lower s) ''.mp3''"

text \<open>\<open>os.path.join\<close> of a directory and a name that \<open>os.listdir\<close> returned (POSIX).\<close>

definition path_join :: "string \<Rightarrow> string \<Rightarrow> string" where
  "path_join d f = (if d = [] \<or> endswith d ''/'' then d @ f else d @ ''/'' @ f)"

text \<open>Python's truth value of \<open>self.current_file\<close>: \<open>None\<close> and the empty string are false.\<close>

definition truthy :: "string option \<Rightarrow> bool" where
  "truthy f = (case f of None \<Rightarrow> False | Some s \<Rightarrow> s \<noteq> [])"

subsection \<open>Elapsed time\<close>

text \<open>
  The position every handler derives the same way: \<open>offset\<close> while paused, otherwise
  \<open>offset + (time.time() - play_start_time)\<close>, which raises TypeError (here \<open>None\<close>)
  when the start time is \<open>None\<close>.
\<close>

definition current_time :: "env \<Rightarrow> player \<Rightarrow> real option" where
  "current_time e st =
     (if paused st then Some (offset st)
      else (case play_start_time st of
              None \<Rightarrow> None
            | Some t0 \<Rightarrow> Some (offset st + (now e - t0))))"

text \<open>
  The time \<open>update_progress\<close> shows: the position, replaced by the track length when it is
  beyond it.
\<close>

definition shown_time :: "env \<Rightarrow> player \<Rightarrow> real option" where
  "shown_time e st =
     (case current_time e st of
        None \<Rightarrow> None
      | Some t \<Rightarrow> Some (if t > track_length st then track_length st else t))"

text \<open>
  The track length after a successful load: mutagen's when it is installed (its exception
  reaches the caller's handler: \<open>None\<close>), otherwise \<open>pygame.mixer.Sound\<close>'s, with 0 when
  that raises.
\<close>

definition probe_length :: "env \<Rightarrow> string \<Rightarrow> real option" where
  "probe_length e f =
     (if use_mutagen e then mutagen_length e f
      else (case sound_length e f of None \<Rightarrow> Some 0 | Some l \<Rightarrow> Some l))"

subsection \<open>The handlers\<close>

definition send :: "command list \<Rightarrow> player \<Rightarrow> player" where
  "send cs st = st\<lparr>mixer := mixer st @ cs\<rparr>"

definition notify :: "notice \<Rightarrow> player \<Rightarrow> player" where
  "notify n st = st\<lparr>notices := notices st @ [n]\<rparr>"

definition stop_music :: "player \<Rightarrow> player" where
  "stop_music st =
     (if playing st
      then (send [Stop] st)\<lparr>playing := False, paused := False, offset := 0,
             play_start_time := None\<rparr>
      else st)"

definition toggle_pause :: "env \<Rightarrow> player \<Rightarrow> player" where
  "toggle_pause e st =
     (if playing st then
        (if \<not> paused st then
           (send [Pause] st)\<lparr>
              offset := (case play_start_time st of
                           None \<Rightarrow> offset st
                         | Some t0 \<Rightarrow> offset st + (now e - t0)),
              play_start_time := None, paused := True\<rparr>
         else (send [Unpause] st)\<lparr>play_start_time := Some (now e), paused := False\<rparr>)
      else st)"

text \<open>
  \<open>seek\<close> has no handler of its own: an exception leaves it with the fields as they were.
  The result is the exception raised, if any, and the state afterwards.
\<close>

definition seek :: "env \<Rightarrow> real \<Rightarrow> player \<Rightarrow> py_error option \<times> player" where
  "seek e delta st =
     (if playing st \<and> track_length st > 0 then
        (case current_time e st of
           None \<Rightarrow> (Some TypeError, st)
         | Some ct \<Rightarrow>
             let t = ct + delta;
                 new_time = (if t < 0 then 0
                             else if t > track_length st then track_length st - 1
                             else t);
                 st1 = send [Play new_time] st
             in if play_fails e then (Some MixerError, st1)
                else if \<not> paused st then
                  (None, st1\<lparr>offset := new_time, play_start_time := Some (now e)\<rparr>)
                else
                  (None, (send [Pause] st1)\<lparr>offset := new_time, play_start_time := None\<rparr>))
      else (None, st))"

text \<open>A click at pixel \<open>x\<close> of a progress bar \<open>width\<close> pixels wide.\<close>

definition jump_to_position :: "env \<Rightarrow> int \<Rightarrow> int \<Rightarrow> player \<Rightarrow> py_error option \<times> player" where
  "jump_to_position e x width st =
     (if playing st \<and> track_length st > 0 then
        (if width = 0 then (Some ZeroDivisionError, st)
         else
           let fraction = real_of_int x / real_of_int width;
               new_time = fraction * track_length st
           in (case current_time e st of
                 None \<Rightarrow> (Some TypeError, st)
               | Some ct \<Rightarrow> seek e (new_time - ct) st))
      else (None, st))"

definition rewind_music :: "env \<Rightarrow> player \<Rightarrow> py_error option \<times> player" where
  "rewind_music e st = seek e (- 5) st"

definition fast_forward_music :: "env \<Rightarrow> player \<Rightarrow> py_error option \<times> player" where
  "fast_forward_music e st = seek e 5 st"

text \<open>
  \<open>update_progress\<close> calls \<open>play_next_song\<close> when the mixer is idle, and \<open>play_next_song\<close>
  ends by calling \<open>update_progress\<close>, which asks the mixer again, now that the next track
  has been started. The calls nest for as long as the mixer goes on answering that it is
  idle. The first argument counts the calls still allowed, and \<open>None\<close> means that they ran
  out. In Python the nesting ends at the interpreter's recursion limit, with a
  RecursionError raised wherever the limit is reached, inside the two methods or inside a
  library call that they make; the model does not say what the fields are after that, and
  \<open>None\<close> stands for it. An exception raised inside \<open>play_next_song\<close> is caught there and
  logged; \<open>update_progress\<close> raises TypeError when it needs a start time or a file name
  that is \<open>None\<close>.
\<close>

fun update_progress :: "nat \<Rightarrow> env \<Rightarrow> player \<Rightarrow> (py_error option \<times> player) option"
  and play_next_song :: "nat \<Rightarrow> env \<Rightarrow> player \<Rightarrow> player option"
where
  "update_progress 0 e st = None"
| "update_progress (Suc n) e st =
     (if playing st \<and> track_length st > 0 then
        (case shown_time e st of
           None \<Rightarrow> Some (Some TypeError, st)
         | Some t \<Rightarrow>
             (case current_file st of
                None \<Rightarrow> Some (Some TypeError, st)
              | Some name \<Rightarrow>
                  if \<not> busy e (mixer st) \<and> \<not> paused st then
                    (if playlist st \<noteq> [] then
                       (case play_next_song n e st of
                          None \<Rightarrow> None
                        | Some st' \<Rightarrow> Some (None, st'))
                     else Some (None, stop_music st))
                  else Some (None, st)))
      else Some (None, st))"
| "play_next_song 0 e st = None"
| "play_next_song (Suc n) e st =
     (if playlist st \<noteq> [] then
        let i = (current_index st + 1) mod int (length (playlist st));
            f = playlist st ! nat i;
            st1 = (send [Load f] st)\<lparr>current_index := i, current_file := Some f\<rparr>
        in if load_fails e f then Some (notify LogErrorNextSong st1)
           else (case probe_length e f of
                   None \<Rightarrow> Some (notify LogErrorNextSong st1)
                 | Some len \<Rightarrow>
                     let st2 = send [Play 0] (st1\<lparr>track_length := len\<rparr>)
                     in if play_fails e then Some (notify LogErrorNextSong st2)
                        else
                          let st3 = st2\<lparr>offset := 0, play_start_time := Some (now e),
                                       playing := True, paused := False\<rparr>
                          in (case update_progress n e st3 of
                                None \<Rightarrow> None
                              | Some (None, st4) \<Rightarrow> Some st4
                              | Some (Some err, st4) \<Rightarrow> Some (notify LogErrorNextSong st4)))
      else Some st)"

definition play_music :: "nat \<Rightarrow> env \<Rightarrow> player \<Rightarrow> player option" where
  "play_music n e st =
     (if truthy (current_file st) then
        let st1 = send [Play 0] st
        in if play_fails e then Some (notify ErrFailedToPlay st1)
           else
             let st2 = st1\<lparr>offset := 0, play_start_time := Some (now e),
                          playing := True, paused := False\<rparr>
             in (case update_progress n e st2 of
                   None \<Rightarrow> None
                 | Some (None, st3) \<Rightarrow> Some st3
                 | Some (Some err, st3) \<Rightarrow> Some (notify ErrFailedToPlay st3))
      else Some (notify WarnNoFileSelected st))"

text \<open>\<open>file_path\<close> is what the file dialog returned; the empty string is a cancelled dialog.\<close>

definition load_file :: "env \<Rightarrow> string \<Rightarrow> player \<Rightarrow> player" where
  "load_file e file_path st =
     (if file_path \<noteq> [] then
        let st1 = st\<lparr>playlist := [], current_index := - 1, current_file := Some file_path\<rparr>
        in if is_mp3 file_path then
             let st2 = send [Load file_path] st1
             in if load_fails e file_path
                then (notify ErrFailedToLoad st2)\<lparr>current_file := None\<rparr>
                else (case probe_length e file_path of
                        None \<Rightarrow> (notify ErrFailedToLoad st2)\<lparr>current_file := None\<rparr>
                      | Some len \<Rightarrow> st2\<lparr>track_length := len\<rparr>)
           else notify WarnUnsupportedFile st1
      else st)"

text \<open>
  \<open>folder_path\<close> is what the directory dialog returned. \<open>os.listdir\<close> is outside any handler,
  and so is the first element of the shuffled list.
\<close>

definition load_folder ::
  "nat \<Rightarrow> env \<Rightarrow> string \<Rightarrow> player \<Rightarrow> (py_error option \<times> player) option" where
  "load_folder n e folder_path st =
     (if folder_path \<noteq> [] then
        let st0 = (if playing st then stop_music st else st)
        in (case listdir e folder_path of
              None \<Rightarrow> Some (Some OSError, st0)
            | Some names \<Rightarrow>
                let mp3_files = map (path_join folder_path) (filter is_mp3 names)
                in if mp3_files = [] then Some (None, notify WarnNoMP3Files st0)
                   else
                     let st1 = st0\<lparr>playlist := shuffle e mp3_files, current_index := 0\<rparr>
                     in (case playlist st1 of
                           [] \<Rightarrow> Some (Some IndexError, st1)
                         | f # rest \<Rightarrow>
                             let st2 = send [Load f] (st1\<lparr>current_file := Some f\<rparr>)
                             in if load_fails e f
                                then Some (None, (notify ErrFailedToLoad st2)\<lparr>current_file := None\<rparr>)
                                else (case probe_length e f of
                                        None \<Rightarrow>
                                          Some (None, (notify ErrFailedToLoad st2)\<lparr>current_file := None\<rparr>)
                                      | Some len \<Rightarrow>
                                          (case play_music n e (st2\<lparr>track_length := len\<rparr>) of
                                             None \<Rightarrow> None
                                           | Some st3 \<Rightarrow> Some (None, st3)))))
      else Some (None, st))"


subsection \<open>Sample environments and states\<close>

text \<open>
  An environment at instant \<open>t\<close> in which nothing fails, mutagen reports \<open>len\<close> seconds for
  every file, the mixer answers \<open>b\<close> to every \<open>get_busy\<close>, the directory holds \<open>names\<close> and
  the shuffle leaves the order as it is.
\<close>

definition sample_env :: "real \<Rightarrow> bool \<Rightarrow> real \<Rightarrow> string list \<Rightarrow> env" where
  "sample_env t b len names = \<lparr>now = t, busy = (\<lambda>tr. b), load_fails = (\<lambda>f. False),
     play_fails = False, use_mutagen = True, mutagen_length = (\<lambda>f. Some len),
     sound_length = (\<lambda>f. None), listdir = (\<lambda>d. Some names), shuffle = (\<lambda>xs. xs)\<rparr>"


text \<open>A three-minute song, loaded and then played at instant 0.\<close>

definition loaded_song :: player where
  "loaded_song = initial\<lparr>current_file := Some ''song.mp3'', track_length := 180,
     mixer := [Load ''song.mp3'']\<rparr>"

definition playing_song :: player where
  "playing_song = loaded_song\<lparr>playing := True, play_start_time := Some 0,
     mixer := [Load ''song.mp3'', Play 0]\<rparr>"

text \<open>
  A folder of two songs after \<open>load_folder\<close>: the first one is playing since instant 0.
\<close>

definition two_songs :: player where
  "two_songs = initial\<lparr>current_file := Some ''m/a.mp3'', playing := True, track_length := 180,
     play_start_time := Some 0, playlist := [''m/a.mp3'', ''m/b.mp3''], current_index := 0,
     mixer := [Load ''m/a.mp3'', Play 0]\<rparr>"

text \<open>A track of half a second, loaded and then played at instant 0.\<close>

definition short_playing :: player where
  "short_playing = initial\<lparr>current_file := Some ''blip.mp3'', playing := True,
     track_length := 1 / 2, play_start_time := Some 0,
     mixer := [Load ''blip.mp3'', Play 0]\<rparr>"

text \<open>An environment in which the mixer cannot open the file \<open>bad\<close>.\<close>

definition failing_env :: "real \<Rightarrow> string \<Rightarrow> env" where
  "failing_env t bad = (sample_env t True 180 [])\<lparr>load_fails := (\<lambda>f. f = bad)\<rparr>"

section \<open>Properties\<close>

lemmas str_defs = is_mp3_def endswith_def lower_def lower_chr_def path_join_def

lemma loaded_song_reached:
  "load_file (sample_env 0 True 180 []) ''song.mp3'' initial = loaded_song"
  by (simp add: loaded_song_def load_file_def sample_env_def initial_def str_defs send_def
        probe_length_def)

lemma playing_song_reached:
  "play_music 1 (sample_env 0 True 180 []) loaded_song = Some playing_song"
  by (simp add: playing_song_def loaded_song_def play_music_def sample_env_def initial_def
        truthy_def send_def shown_time_def current_time_def)

lemma two_songs_reached:
  "load_folder 1 (sample_env 0 True 180 [''a.mp3'', ''notes.txt'', ''b.mp3'']) ''m'' initial =
     Some (None, two_songs)"
  by (simp add: two_songs_def load_folder_def sample_env_def initial_def str_defs send_def
        probe_length_def play_music_def truthy_def shown_time_def current_time_def)

lemma short_playing_reached:
  "play_music 1 (sample_env 0 True (1 / 2) [])
     (load_file (sample_env 0 True (1 / 2) []) ''blip.mp3'' initial) = Some short_playing"
  by (simp add: short_playing_def load_file_def play_music_def sample_env_def initial_def
        str_defs send_def probe_length_def truthy_def shown_time_def current_time_def)

subsection \<open>Play\<close>

text \<open>
  C7. With a current file loaded, \<open>play_music\<close> sets \<open>offset\<close> to 0 and the start time to
  the current instant, whatever the offset, pause flag and playing flag were before, so
  the position derived at that instant is 0. This is the course of \<open>play_music\<close> in which
  the mixer accepts the play call and, when the track length is known, reports that it
  is busy when it is asked after that call.
\<close>

theorem play_music_restarts:
  assumes "truthy (current_file st)" and "\<not> play_fails e"
    and "busy e (mixer st @ [Play 0]) \<or> track_length st \<le> 0"
  shows "play_music (Suc n) e st =
           Some ((send [Play 0] st)\<lparr>offset := 0, play_start_time := Some (now e),
                   playing := True, paused := False\<rparr>)
         \<and> current_time e ((send [Play 0] st)\<lparr>offset := 0, play_start_time := Some (now e),
                   playing := True, paused := False\<rparr>) = Some 0"
proof -
  obtain f where f: "current_file st = Some f"
    using assms(1) by (auto simp: truthy_def split: option.splits)
  let ?st2 = "(send [Play 0] st)\<lparr>offset := 0, play_start_time := Some (now e),
                   playing := True, paused := False\<rparr>"
  have ct: "current_time e ?st2 = Some 0"
    by (simp add: current_time_def)
  have up: "update_progress (Suc n) e ?st2 = Some (None, ?st2)"
    using assms(3) f by (auto simp: shown_time_def current_time_def send_def)
  show ?thesis
    using assms(1,2) up ct by (simp add: play_music_def Let_def)
qed

theorem play_music_restarts_witness:
  "truthy (current_file loaded_song) \<and> \<not> play_fails (sample_env 7 True 180 [])
   \<and> (busy (sample_env 7 True 180 []) (mixer loaded_song @ [Play 0])
        \<or> track_length loaded_song \<le> 0)
   \<and> play_music 1 (sample_env 7 True 180 []) loaded_song =
        Some (initial\<lparr>current_file := Some ''song.mp3'', playing := True,
                track_length := 180, play_start_time := Some 7,
                mixer := [Load ''song.mp3'', Play 0]\<rparr>)"
  using play_music_restarts [of loaded_song "sample_env 7 True 180 []" 0]
  by (simp add: loaded_song_def sample_env_def initial_def truthy_def send_def)

subsection \<open>Pause and resume\<close>

text \<open>
  C8. From a playing state, two calls of \<open>toggle_pause\<close> lead back to a playing state: the
  first adds the time played since the start time to \<open>offset\<close>, clears the start time
  and sets the pause flag; the second sets the start time to its own instant and leaves
  \<open>offset\<close> as it is. The position derived at the instant of the second call is the
  position at the instant of the first.
\<close>

theorem toggle_pause_twice:
  assumes "playing st" and "\<not> paused st" and "play_start_time st = Some t0"
  shows "let st1 = toggle_pause e1 st; st2 = toggle_pause e2 st1 in
           playing st1 \<and> paused st1 \<and> play_start_time st1 = None
         \<and> Some (offset st1) = current_time e1 st
         \<and> playing st2 \<and> \<not> paused st2 \<and> play_start_time st2 = Some (now e2)
         \<and> offset st2 = offset st1
         \<and> current_time e2 st2 = current_time e1 st
         \<and> mixer st2 = mixer st @ [Pause, Unpause]"
  using assms by (simp add: toggle_pause_def current_time_def send_def Let_def)

theorem toggle_pause_twice_witness:
  "playing playing_song \<and> \<not> paused playing_song \<and> play_start_time playing_song = Some 0
   \<and> offset (toggle_pause (sample_env 12 True 180 []) playing_song) = 12
   \<and> current_time (sample_env 30 True 180 [])
        (toggle_pause (sample_env 30 True 180 [])
           (toggle_pause (sample_env 12 True 180 []) playing_song)) = Some 12"
  using toggle_pause_twice [of playing_song 0 "sample_env 12 True 180 []"
      "sample_env 30 True 180 []"]
  by (simp add: playing_song_def loaded_song_def sample_env_def initial_def current_time_def
        Let_def)

subsection \<open>Seeking while stopped\<close>

text \<open>
  C10. While the playing flag is false, \<open>seek\<close> and \<open>jump_to_position\<close> do nothing: no
  call reaches the mixer and no field changes, also when a file is loaded and its length
  is known and positive.
\<close>

theorem seek_stopped_noop:
  assumes "\<not> playing st"
  shows "seek e delta st = (None, st) \<and> jump_to_position e x width st = (None, st)"
  using assms by (simp add: seek_def jump_to_position_def)

theorem seek_stopped_noop_witness:
  "\<not> playing loaded_song \<and> truthy (current_file loaded_song) \<and> track_length loaded_song > 0
   \<and> seek (sample_env 3 True 180 []) 5 loaded_song = (None, loaded_song)
   \<and> jump_to_position (sample_env 3 True 180 []) 400 800 loaded_song = (None, loaded_song)"
  using seek_stopped_noop [of loaded_song "sample_env 3 True 180 []" 5 400 800]
  by (simp add: loaded_song_def initial_def truthy_def)

subsection \<open>Next song\<close>

text \<open>
  The calls of \<open>update_progress\<close> and \<open>play_next_song\<close> return when the mixer reports busy
  once the next track has been started: three nested calls are enough.
\<close>

lemma play_next_song_returns:
  assumes "\<forall>f. busy e (mixer st @ [Load f, Play 0])"
  shows "\<exists>st'. play_next_song (Suc (Suc n)) e st = Some st'"
  using assms
  by (auto simp: Let_def send_def notify_def shown_time_def current_time_def
           split: option.splits)

lemma update_progress_returns:
  assumes "\<forall>f. busy e (mixer st @ [Load f, Play 0])"
  shows "\<exists>r. update_progress (Suc (Suc (Suc n))) e st = Some r"
proof -
  obtain st' where "play_next_song (Suc (Suc n)) e st = Some st'"
    using play_next_song_returns [OF assms] by blast
  then show ?thesis
    by (auto simp del: play_next_song.simps split: option.splits)
qed





subsection \<open>The periodic progress update\<close>




subsection \<open>Loading a folder without MP3 files\<close>

text \<open>
  C4, as the code has it. When the chosen directory holds no name ending in \<open>.mp3\<close>,
  \<open>load_folder\<close> shows the warning that no MP3 files were found and leaves the current
  file, the playlist, the index and the track length as they were. It has stopped playback
  before the scan: from a state that is not playing nothing else changes, and from a
  playing or paused state the mixer is stopped, both flags are cleared, \<open>offset\<close> is 0 and
  the start time is cleared.
\<close>

theorem load_folder_empty:
  assumes "folder_path \<noteq> []" and "listdir e folder_path = Some names"
    and "filter is_mp3 names = []"
  shows "load_folder n e folder_path st = Some (None, notify WarnNoMP3Files (stop_music st))
       \<and> current_file (notify WarnNoMP3Files (stop_music st)) = current_file st
       \<and> playlist (notify WarnNoMP3Files (stop_music st)) = playlist st
       \<and> current_index (notify WarnNoMP3Files (stop_music st)) = current_index st
       \<and> track_length (notify WarnNoMP3Files (stop_music st)) = track_length st
       \<and> (if playing st
          then stop_music st = (send [Stop] st)\<lparr>playing := False, paused := False,
                                 offset := 0, play_start_time := None\<rparr>
          else stop_music st = st)"
  using assms by (simp add: load_folder_def stop_music_def notify_def send_def)

theorem load_folder_empty_witness:
  "''docs'' \<noteq> []
   \<and> listdir (sample_env 50 True 180 [''notes.txt'']) ''docs'' = Some [''notes.txt'']
   \<and> filter is_mp3 [''notes.txt''] = []
   \<and> load_folder 0 (sample_env 50 True 180 [''notes.txt'']) ''docs'' loaded_song =
        Some (None, loaded_song\<lparr>notices := [WarnNoMP3Files]\<rparr>)"
  using load_folder_empty [of "''docs''" "sample_env 50 True 180 [''notes.txt'']"
      "[''notes.txt'']" 0 loaded_song]
  by (simp add: loaded_song_def sample_env_def initial_def str_defs stop_music_def notify_def)

text \<open>
  C4 as stated fails: a song is playing and the chosen directory holds only
  \<open>notes.txt\<close>. After \<open>load_folder\<close> the mixer has been sent \<open>Stop\<close>, and the playing flag
  and the start time are cleared.
\<close>

theorem load_folder_empty_stops_counterexample:
  "load_folder 0 (sample_env 50 True 180 [''notes.txt'']) ''docs'' playing_song =
     Some (None, loaded_song\<lparr>mixer := [Load ''song.mp3'', Play 0, Stop],
                   notices := [WarnNoMP3Files]\<rparr>)
   \<and> playing playing_song \<and> play_start_time playing_song = Some 0
   \<and> mixer playing_song = [Load ''song.mp3'', Play 0]"
  by (simp add: load_folder_def playing_song_def loaded_song_def sample_env_def initial_def
        stop_music_def send_def notify_def str_defs)

subsection \<open>Seeking\<close>

text \<open>
  What \<open>seek\<close> does keep: on a track of at least one second the new \<open>offset\<close> lies between
  0 and the track length, both included.
\<close>

lemma seek_offset_bounds:
  assumes "playing st" and "1 \<le> track_length st" and "current_time e st = Some ct"
    and "\<not> play_fails e"
  shows "0 \<le> offset (snd (seek e delta st)) \<and> offset (snd (seek e delta st)) \<le> track_length st"
  using assms by (simp add: seek_def Let_def send_def)

text \<open>
  C1 at two inputs. On the half-second track, a quarter of a second in, seeking 5 seconds
  forward goes beyond the end and the new position is the length minus one second:
  \<open>offset\<close> becomes -1/2 and the mixer is asked to play from -1/2. On the three-minute
  song, 175 seconds in, seeking 5 seconds forward gives exactly the length, which is not
  beyond it: \<open>offset\<close> becomes 180, the length itself.
\<close>

theorem seek_leaves_range:
  "seek (sample_env (1 / 4) True (1 / 2) []) 5 short_playing =
     (None, short_playing\<lparr>offset := - (1 / 2), play_start_time := Some (1 / 4),
              mixer := [Load ''blip.mp3'', Play 0, Play (- (1 / 2))]\<rparr>)
   \<and> seek (sample_env 175 True 180 []) 5 playing_song =
     (None, playing_song\<lparr>offset := 180, play_start_time := Some 175,
              mixer := [Load ''song.mp3'', Play 0, Play 180]\<rparr>)
   \<and> track_length playing_song = 180"
  by (simp add: seek_def short_playing_def playing_song_def loaded_song_def sample_env_def
        initial_def current_time_def send_def Let_def)

subsection \<open>The bounds of the shown time\<close>

lemma shown_time_upper:
  assumes "shown_time e st = Some t"
  shows "t \<le> track_length st"
  using assms by (auto simp: shown_time_def split: option.splits if_splits)

lemma shown_time_bounds:
  assumes "shown_time e st = Some t" and "0 \<le> offset st" and "0 < track_length st"
    and "paused st \<or> (\<exists>t0. play_start_time st = Some t0 \<and> t0 \<le> now e)"
  shows "0 \<le> t \<and> t \<le> track_length st"
  using assms
  by (auto simp: shown_time_def current_time_def split: option.splits if_splits)

text \<open>
  C2 at the state that the seek on the half-second track leaves: the length is known and
  positive, and the time that \<open>update_progress\<close> derives at that instant is -1/2.
\<close>

theorem shown_time_negative_after_seek:
  "shown_time (sample_env (1 / 4) True (1 / 2) [])
     (snd (seek (sample_env (1 / 4) True (1 / 2) []) 5 short_playing)) = Some (- (1 / 2))
   \<and> 0 < track_length (snd (seek (sample_env (1 / 4) True (1 / 2) []) 5 short_playing))"
  by (simp add: seek_def short_playing_def sample_env_def initial_def current_time_def
        shown_time_def send_def Let_def)

subsection \<open>Loading a file\<close>

text \<open>
  C5 at one input: with the two-song folder loaded, the file dialog returns
  \<open>notes.txt\<close>. \<open>load_file\<close> shows the warning for unsupported files, and by then it has
  emptied the playlist, set the index to -1 and made \<open>notes.txt\<close> the current file.
\<close>

theorem load_file_unsupported_changes_state:
  "load_file (sample_env 40 True 180 []) ''notes.txt'' two_songs =
     two_songs\<lparr>current_file := Some ''notes.txt'', playlist := [], current_index := - 1,
       notices := [WarnUnsupportedFile]\<rparr>"
  by (simp add: load_file_def two_songs_def sample_env_def initial_def str_defs notify_def)

subsection \<open>The current file after a failed load\<close>

lemma load_file_load_error:
  assumes "file_path \<noteq> []" and "is_mp3 file_path" and "load_fails e file_path"
  shows "current_file (load_file e file_path st) = None"
  using assms by (simp add: load_file_def Let_def notify_def send_def)

lemma load_folder_load_error:
  assumes "load_folder n e folder_path st = Some (None, st')"
    and "folder_path \<noteq> []" and "listdir e folder_path = Some names"
    and "filter is_mp3 names \<noteq> []"
    and "shuffle e (map (path_join folder_path) (filter is_mp3 names)) = f # rest"
    and "load_fails e f"
  shows "current_file st' = None"
  using assms
  by (auto simp: load_folder_def Let_def notify_def send_def split: if_splits list.splits)

text \<open>
  C6 at one input: the first of two songs is playing and the mixer cannot open the
  second. After \<open>play_next_song\<close> the error is logged and the current file is the second
  song, the one that failed to load; \<open>load_file\<close> and \<open>load_folder\<close> set it to \<open>None\<close>
  when the load fails.
\<close>

theorem play_next_song_keeps_failed_file:
  "play_next_song 1 (failing_env 40 ''m/b.mp3'') two_songs =
     Some (two_songs\<lparr>current_file := Some ''m/b.mp3'', current_index := 1,
             mixer := [Load ''m/a.mp3'', Play 0, Load ''m/b.mp3''],
             notices := [LogErrorNextSong]\<rparr>)"
  by (simp add: two_songs_def failing_env_def sample_env_def initial_def send_def notify_def
        Let_def)

end
